theory Spec2Isabelle
  imports Complex_Main "HOL-Library.AList"
begin

section \<open>JavaScript values\<close>

text \<open>
  Webview messages are untyped objects, so the values read from them are modelled by a
  datatype of JavaScript values. A finite number is a real: every double is one, and the
  operations the provider applies to a port (\<open>Math.floor\<close>, \<open>Math.min\<close>,
  \<open>Math.max\<close>) are exact on doubles. An object is represented by the text its
  \<open>toString()\<close> returns. Strings are lists of 8-bit characters.
\<close>

datatype jsnum = Num real | NaN | PosInfinity | NegInfinity

datatype jsval = JUndefined | JNull | JBool bool | JNum jsnum | JStr string | JObj string

text \<open>Truthiness, as used by \<open>if (v)\<close>, \<open>v || d\<close>, \<open>v && w\<close> and \<open>!v\<close>.\<close>

fun truthy :: "jsval \<Rightarrow> bool" where
  "truthy JUndefined = False"
| "truthy JNull = False"
| "truthy (JBool b) = b"
| "truthy (JNum (Num r)) = (r \<noteq> 0)"
| "truthy (JNum NaN) = False"
| "truthy (JNum PosInfinity) = True"
| "truthy (JNum NegInfinity) = True"
| "truthy (JStr s) = (s \<noteq> [])"
| "truthy (JObj s) = True"

text \<open>\<open>a || b\<close> and \<open>a && b\<close> return one of their operands.\<close>

definition jsOr :: "jsval \<Rightarrow> jsval \<Rightarrow> jsval" where
  "jsOr a b = (if truthy a then a else b)"

definition jsAnd :: "jsval \<Rightarrow> jsval \<Rightarrow> jsval" where
  "jsAnd a b = (if truthy a then b else a)"

text \<open>\<open>Number.isFinite\<close> does not coerce: it is false on everything that is not a number.\<close>

fun isFiniteNumber :: "jsval \<Rightarrow> bool" where
  "isFiniteNumber (JNum (Num r)) = True"
| "isFiniteNumber v = False"

section \<open>Strings\<close>

text \<open>
  \<open>String.prototype.trim\<close> removes white space and line terminators from both ends;
  these are the ones among the 8-bit characters.
\<close>

definition isWhiteSpace :: "char \<Rightarrow> bool" where
  "isWhiteSpace c =
     (c = CHR 0x09 \<or> c = CHR 0x0A \<or> c = CHR 0x0B \<or> c = CHR 0x0C \<or> c = CHR 0x0D
      \<or> c = CHR 0x20 \<or> c = CHR 0xA0)"

definition trim :: "string \<Rightarrow> string" where
  "trim s = rev (dropWhile isWhiteSpace (rev (dropWhile isWhiteSpace s)))"

text \<open>Decimal text of an integer, as a template literal renders it.\<close>

definition digit :: "nat \<Rightarrow> char" where
  "digit n = ''0123456789'' ! n"

fun string_of_nat :: "nat \<Rightarrow> string" where
  "string_of_nat n =
     (if n < 10 then [digit n] else string_of_nat (n div 10) @ [digit (n mod 10)])"

declare string_of_nat.simps [simp del]

definition string_of_int :: "int \<Rightarrow> string" where
  "string_of_int i = (if i < 0 then CHR ''-'' # string_of_nat (nat (- i)) else string_of_nat (nat i))"

section \<open>The provider's state\<close>

datatype origin = Browser | Sidebar

text \<open>A terminal handle is the pair of options it was created with: its name and its cwd.\<close>

datatype terminal = Terminal string string

record RunningServer =
  port :: int
  mode :: string
  folder :: string
  startTime :: nat
  terminal :: terminal
  origin :: origin

text \<open>The data of a \<open>commandResults\<close> message.\<close>

record commandData =
  command :: string
  outputText :: string
  error :: bool
  success :: bool
  exitCode :: jsval
  duration :: int

text \<open>Messages posted to a webview.\<close>

datatype message =
    ServerStarted string int string string nat
  | ServerStopped string "int option"
  | LiveServerStarted int string string
  | LiveServerStopped
  | LiveServerError string
  | CommandResults commandData
  | AuditResults string

text \<open>
  What an operation does to the host, in the order the source does it. The provider keeps
  the list of these, so that a claim about what was or was not broadcast is a claim about
  this list. Console output is not part of the model.
\<close>

datatype event =
    PostView message
  | PostPanel message
  | PostBrowser message
  | ShowInformationMessage string
  | ShowErrorMessage string
  | SetStatusBarMessage string nat
  | CreateTerminal terminal
  | TerminalShow terminal
  | TerminalSendText terminal string bool
  | TerminalDispose terminal
  | OpenAfter nat string
  | FileWatcherDispose
  | BrowserPanelDispose

text \<open>
  The fields of \<open>HTFlowSidebarProvider\<close>. The two maps are JavaScript \<open>Map\<close>s, which
  iterate in insertion order, so they are association lists: \<open>Map.get\<close> is \<open>map_of\<close>,
  \<open>Map.set\<close> is \<open>AList.update\<close> (in place when the key exists, at the end
  otherwise), \<open>Map.delete\<close> is \<open>AList.delete\<close>. A surface is present or absent;
  the browser panel, when present, carries its port mapping, a list of pairs
  (webviewPort, extensionHostPort).
\<close>

record provider =
  view :: bool
  currentPanel :: bool
  browserPanel :: "(int \<times> int) list option"
  fileWatcher :: bool
  runningServers :: "(string \<times> RunningServer) list"
  terminals :: "(string \<times> terminal) list"
  browserLiveServerId :: "string option"
  events :: "event list"

definition emit :: "event list \<Rightarrow> provider \<Rightarrow> provider" where
  "emit es st = st\<lparr>events := events st @ es\<rparr>"

section \<open>Looking up a running server, mapping a port\<close>

text \<open>
  \<open>findRunningServerByPort(port, mode?)\<close>: the first entry, in insertion order, with
  that port and, when \<open>mode\<close> is truthy, that mode. An omitted mode is \<open>None\<close>; an
  empty one is falsy too.
\<close>

definition findRunningServerByPort ::
  "int \<Rightarrow> string option \<Rightarrow> provider \<Rightarrow> (string \<times> RunningServer) option" where
  "findRunningServerByPort p md st =
     find (\<lambda>(serverId, server).
             port server = p \<and> (case md of None \<Rightarrow> True | Some m \<Rightarrow> m = [] \<or> mode server = m))
          (runningServers st)"

definition ensureBrowserPortMapping :: "int \<Rightarrow> provider \<Rightarrow> provider" where
  "ensureBrowserPortMapping p st =
     (case browserPanel st of
        None \<Rightarrow> st
      | Some currentMappings \<Rightarrow>
          if list_ex (\<lambda>mapping. snd mapping = p) currentMappings then st
          else st\<lparr>browserPanel := Some (currentMappings @ [(p, p)])\<rparr>)"

section \<open>Starting a server\<close>

definition defaultPort :: "string \<Rightarrow> int" where
  "defaultPort m = (if m = ''dev'' then 3050 else if m = ''start'' then 3051 else 3000)"

text \<open>
  \<open>normalizedPort\<close>: a finite number is floored and clamped into 1..65535, anything
  else becomes the mode's default.
\<close>

definition normalizedPort :: "jsval \<Rightarrow> string \<Rightarrow> int" where
  "normalizedPort p m =
     (case p of
        JNum (Num r) \<Rightarrow> max 1 (min 65535 \<lfloor>r\<rfloor>)
      | _ \<Rightarrow> defaultPort m)"

text \<open>The parameter default \<open>port: number = 3000\<close> replaces an omitted (undefined) argument.\<close>

definition portParameter :: "jsval \<Rightarrow> jsval" where
  "portParameter p = (if p = JUndefined then JNum (Num 3000) else p)"

text \<open>The text sent to the new terminal (the variable \<open>command\<close>).\<close>

definition serverCommand :: "string \<Rightarrow> string \<Rightarrow> bool \<Rightarrow> int \<Rightarrow> string" where
  "serverCommand m folderValue hasUserSpecifiedPort np =
     (let folderArg = (if folderValue \<noteq> [] then '' '' @ folderValue else [])
      in if m = ''dev'' \<and> \<not> hasUserSpecifiedPort then ''npx htflow dev'' @ folderArg
         else if m = ''start'' \<and> \<not> hasUserSpecifiedPort then ''npx htflow serve'' @ folderArg
         else ''npx htflow serve '' @ m @ folderArg @ '' -p '' @ string_of_int np)"

text \<open>
  What the host supplies to one call of \<open>startHTFlowServer\<close>: the first workspace
  folder's path if there is one, the clock read by \<open>Date.now()\<close> and by
  \<open>new Date()\<close>, and whether \<open>createTerminal\<close> throws (with which message). The
  other host calls of this function are taken to return normally.
\<close>

record startHost =
  workspaceFolder :: "string option"
  dateNow :: nat
  newDate :: nat
  createTerminalError :: "string option"

text \<open>
  \<open>startHTFlowServer(port, mode, folder, origin, hasUserSpecifiedPort)\<close>. The body has
  no \<open>await\<close>, so a call runs to its end before any other handler runs. The result is
  the pair \<open>{serverId, server}\<close> or \<open>undefined\<close>. Every caller passes the mode,
  the origin and the port flag, so their parameter defaults play no part; the folder is a
  string or omitted, as its type says.
\<close>

definition startHTFlowServer ::
  "startHost \<Rightarrow> jsval \<Rightarrow> string \<Rightarrow> string option \<Rightarrow> origin \<Rightarrow> bool \<Rightarrow> provider
     \<Rightarrow> (string \<times> RunningServer) option \<times> provider" where
  "startHTFlowServer h portArg m folderOpt orig hasUserSpecifiedPort st =
     (let np = normalizedPort (portParameter portArg) m;
          isBrowserOrigin = (orig = Browser)
      in case findRunningServerByPort np (Some m) st of
           Some (serverId, server) \<Rightarrow>
             (let st1 = emit [TerminalShow (terminal server)] st
              in if isBrowserOrigin then
                   (Some (serverId, server),
                    emit [SetStatusBarMessage
                            (''HTFlow server already running on port '' @ string_of_int (port server)) 4000]
                      (ensureBrowserPortMapping (port server)
                         (st1\<lparr>browserLiveServerId := Some serverId\<rparr>)))
                 else
                   (Some (serverId, server),
                    emit [ShowInformationMessage
                            (''HTFlow '' @ mode server @ '' server already running on port ''
                               @ string_of_int (port server))] st1))
         | None \<Rightarrow>
             (case workspaceFolder h of
                None \<Rightarrow>
                  (None, emit [ShowErrorMessage
                                 ''Cannot start HTFlow server: no workspace folder is open''] st)
              | Some fsPath \<Rightarrow>
                  (case createTerminalError h of
                     Some errorMessage \<Rightarrow>
                       (None, emit [ShowErrorMessage
                                      (''Failed to start HTFlow server: '' @ errorMessage)] st)
                   | None \<Rightarrow>
                       (let serverId = m @ ''-'' @ string_of_int np @ ''-'' @ string_of_nat (dateNow h);
                            tm = Terminal (''HTFlow Server ('' @ m @ '':'' @ string_of_int np @ '')'') fsPath;
                            folderValue = (case folderOpt of None \<Rightarrow> [] | Some f \<Rightarrow> trim f);
                            serverInfo = \<lparr>port = np, mode = m, folder = folderValue,
                                          startTime = newDate h, terminal = tm, origin = orig\<rparr>;
                            st1 = st\<lparr>terminals := AList.update serverId tm (terminals st)\<rparr>;
                            st2 = st1\<lparr>runningServers :=
                                        AList.update serverId serverInfo (runningServers st1)\<rparr>;
                            st3 = (if isBrowserOrigin then st2\<lparr>browserLiveServerId := Some serverId\<rparr>
                                   else st2);
                            folderText = (if folderValue \<noteq> []
                                          then '' from folder '' @ [CHR 0x27] @ folderValue @ [CHR 0x27]
                                          else []);
                            statusMessage = ''HTFlow '' @ m @ '' server starting on port ''
                                              @ string_of_int np @ folderText @ ''...'';
                            started = ServerStarted serverId (port serverInfo) (mode serverInfo)
                                        (folder serverInfo) (startTime serverInfo);
                            st4 = emit
                                   ([CreateTerminal tm, TerminalShow tm,
                                     TerminalSendText tm
                                       (serverCommand m folderValue hasUserSpecifiedPort np) True,
                                     (if isBrowserOrigin then SetStatusBarMessage statusMessage 4000
                                      else ShowInformationMessage statusMessage)]
                                    @ (if view st3 then [PostView started] else [])
                                    @ (if browserPanel st3 \<noteq> None then [PostBrowser started] else [])
                                    @ (if \<not> isBrowserOrigin
                                       then [OpenAfter 3000 (''http://localhost:'' @ string_of_int np)]
                                       else []))
                                   st3
                        in (Some (serverId, serverInfo),
                            if isBrowserOrigin then ensureBrowserPortMapping np st4 else st4)))))"

section \<open>Stopping a server\<close>

text \<open>
  What the host does during one call of \<open>stopServer\<close>: whether sending the interrupt
  to the terminal throws, and whether \<open>terminal.dispose()\<close> throws (with which message).
  The source guards the first with a \<open>try\<close> of its own; the second is only inside the
  function's outer \<open>try\<close>.
\<close>

record stopHost =
  interruptError :: "string option"
  disposeError :: "string option"

text \<open>
  The statements of \<open>stopServer\<close> that follow the disposal of the terminal: the Registry
  entry is deleted, \<open>serverStopped\<close> is posted to the surfaces that exist, the
  live-preview target is cleared when it is this server, and the user is told.
\<close>

definition stopCleanup :: "string \<Rightarrow> int option \<Rightarrow> bool \<Rightarrow> provider \<Rightarrow> bool \<times> provider" where
  "stopCleanup serverId resolvedPort isBrowserOrigin st =
     (let st1 = st\<lparr>runningServers := AList.delete serverId (runningServers st)\<rparr>;
          stopped = ServerStopped serverId resolvedPort;
          st2 = emit ((if view st1 then [PostView stopped] else [])
                      @ (if browserPanel st1 \<noteq> None then [PostBrowser stopped] else [])) st1;
          st3 = (if browserLiveServerId st2 = Some serverId
                 then emit (if browserPanel st2 \<noteq> None then [PostBrowser LiveServerStopped] else [])
                        (st2\<lparr>browserLiveServerId := None\<rparr>)
                 else st2);
          successMessage =
            (case resolvedPort of
               Some p \<Rightarrow>
                 if p \<noteq> 0 then ''HTFlow server on port '' @ string_of_int p @ '' stopped successfully''
                 else ''HTFlow server stopped successfully''
             | None \<Rightarrow> ''HTFlow server stopped successfully'')
      in (True,
          emit [if isBrowserOrigin then SetStatusBarMessage successMessage 3000
                else ShowInformationMessage successMessage] st3))"

text \<open>
  \<open>stopServer(serverId, port?)\<close>. The port hint is an integer when given. A throw of
  \<open>terminal.dispose()\<close> leaves the \<open>try\<close> block: the \<open>catch\<close> shows the error
  and returns false.
\<close>

definition stopServer :: "stopHost \<Rightarrow> string \<Rightarrow> int option \<Rightarrow> provider \<Rightarrow> bool \<times> provider" where
  "stopServer h serverId portOpt st =
     (let serverInfo = map_of (runningServers st) serverId;
          resolvedPort = (case portOpt of Some p \<Rightarrow> Some p | None \<Rightarrow> map_option port serverInfo);
          isBrowserOrigin = (map_option origin serverInfo = Some Browser)
      in if serverInfo = None \<and> map_of (terminals st) serverId = None then (False, st)
         else
           (case (case map_of (terminals st) serverId of
                    Some t \<Rightarrow> Some t
                  | None \<Rightarrow> map_option terminal serverInfo) of
              Some t \<Rightarrow>
                (let st1 = (if interruptError h = None
                            then emit [TerminalSendText t [CHR 0x03] False] st else st)
                 in case disposeError h of
                      Some errorMessage \<Rightarrow>
                        (False, emit [ShowErrorMessage
                                        (''Failed to stop HTFlow server: '' @ errorMessage)] st1)
                    | None \<Rightarrow>
                        stopCleanup serverId resolvedPort isBrowserOrigin
                          ((emit [TerminalDispose t] st1)
                             \<lparr>terminals := AList.delete serverId (terminals st1)\<rparr>))
            | None \<Rightarrow> stopCleanup serverId resolvedPort isBrowserOrigin st))"

section \<open>Teardown\<close>

text \<open>
  \<open>dispose()\<close>: the file watcher and the browser panel are disposed and forgotten, every
  terminal of the handle map is disposed, and both maps are cleared. Disposal is taken to
  succeed here.
\<close>

definition dispose :: "provider \<Rightarrow> provider" where
  "dispose st =
     (let st1 = (if fileWatcher st then (emit [FileWatcherDispose] st)\<lparr>fileWatcher := False\<rparr>
                 else st);
          st2 = (if browserPanel st1 \<noteq> None
                 then (emit [BrowserPanelDispose] st1)\<lparr>browserPanel := None\<rparr> else st1);
          st3 = emit (map (\<lambda>(serverId, t). TerminalDispose t) (terminals st2)) st2
      in st3\<lparr>terminals := [], runningServers := []\<rparr>)"

section \<open>Captured commands\<close>

text \<open>
  What \<open>execPromise\<close> settles with: stdout and stderr on success; on failure the error
  object's \<open>stdout\<close>, \<open>stderr\<close>, \<open>message\<close> and \<open>code\<close> (a number, a string
  such as \<open>ENOENT\<close>, or null).
\<close>

datatype execResult = ExecOk string string | ExecError string string string jsval

text \<open>
  The host of a captured command: that of \<open>startHTFlowServer\<close> (\<open>dateNow\<close> is the
  clock at dispatch), the outcome of the child process, and the clock at settlement.
\<close>

record execHost = startHost +
  execOutcome :: execResult
  dateNowAfter :: nat

text \<open>\<open>a || b\<close> on strings: the empty string is falsy.\<close>

definition strOr :: "string \<Rightarrow> string \<Rightarrow> string" where
  "strOr a b = (if a \<noteq> [] then a else b)"

text \<open>The \<open>switch\<close> that builds \<open>commandText\<close> in \<open>executeHTFlowCommandForPanel\<close>.\<close>

definition panelCommandText :: "string \<Rightarrow> string option \<Rightarrow> string" where
  "panelCommandText cmd folderOpt =
     (if cmd = ''init'' then ''npx htflow init''
      else if cmd = ''validate'' then ''npx htflow validate''
      else if cmd = ''build'' then ''npx htflow build''
      else if cmd = ''audit --html'' then ''npx htflow audit --html''
      else if cmd = ''version'' then ''npx htflow --version''
      else if cmd = ''mcp-install'' then ''npx htflow mcp-install''
      else if cmd = ''mcp-uninstall'' then ''npx htflow mcp-uninstall''
      else if cmd = ''mcp-status'' then ''npx htflow mcp-status''
      else (case folderOpt of
              Some f \<Rightarrow>
                if f \<noteq> [] \<and> trim f \<noteq> [] then ''npx htflow '' @ cmd @ '' '' @ trim f
                else ''npx htflow '' @ cmd
            | None \<Rightarrow> ''npx htflow '' @ cmd))"

text \<open>
  \<open>executeHTFlowCommandForPanel(command, successMessage, folder?)\<close>. The result is
  posted to the sidebar view and to the detached panel, whichever exist; nothing is
  returned and nothing is thrown.
\<close>

definition executeHTFlowCommandForPanel ::
  "execHost \<Rightarrow> string \<Rightarrow> string \<Rightarrow> string option \<Rightarrow> provider \<Rightarrow> provider" where
  "executeHTFlowCommandForPanel h cmd successMessage folderOpt st =
     (case workspaceFolder h of
        None \<Rightarrow> emit [ShowErrorMessage ''No workspace folder found''] st
      | Some fsPath \<Rightarrow>
          (case createTerminalError h of
             Some errorMessage \<Rightarrow>
               emit [ShowErrorMessage (''Failed to execute HTFlow command: '' @ errorMessage)] st
           | None \<Rightarrow>
               (let commandText = panelCommandText cmd folderOpt;
                    tm = Terminal (''HTFlow: '' @ cmd) fsPath;
                    st1 = emit [CreateTerminal tm, TerminalShow tm,
                                TerminalSendText tm commandText True] st;
                    elapsed = int (dateNowAfter h) - int (dateNow h)
                in case execOutcome h of
                     ExecOk stdout stderr \<Rightarrow>
                       (let out = strOr stdout
                                    (strOr stderr ''Command completed successfully (no output)'');
                            commandData = \<lparr>command = commandText, outputText = out, error = False,
                                           success = True, exitCode = JNum (Num 0),
                                           duration = elapsed\<rparr>
                        in emit ((if view st1 then [PostView (CommandResults commandData)] else [])
                                 @ (if currentPanel st1 then [PostPanel (CommandResults commandData)]
                                    else [])
                                 @ [ShowInformationMessage successMessage]) st1)
                   | ExecError stdout stderr msg code \<Rightarrow>
                       (let errorOutput = strOr stdout
                                            (strOr stderr (strOr msg ''Command failed with no output''));
                            commandData = \<lparr>command = commandText, outputText = errorOutput,
                                           error = True, success = False,
                                           exitCode = jsOr code (JNum (Num 1)),
                                           duration = elapsed\<rparr>
                        in emit ((if view st1 then [PostView (CommandResults commandData)] else [])
                                 @ (if currentPanel st1 then [PostPanel (CommandResults commandData)]
                                    else [])
                                 @ [ShowErrorMessage (''HTFlow command failed: '' @ msg)]) st1))))"

text \<open>
  \<open>executeHTFlowAuditForPanel(folder, successMessage)\<close>. Its message carries the output
  text only, and a failure with no text at all posts nothing.
\<close>

definition executeHTFlowAuditForPanel ::
  "execHost \<Rightarrow> string option \<Rightarrow> string \<Rightarrow> provider \<Rightarrow> provider" where
  "executeHTFlowAuditForPanel h folderOpt successMessage st =
     (case workspaceFolder h of
        None \<Rightarrow> emit [ShowErrorMessage ''No workspace folder found''] st
      | Some fsPath \<Rightarrow>
          (case createTerminalError h of
             Some errorMessage \<Rightarrow>
               emit [ShowErrorMessage (''Failed to execute HTFlow audit: '' @ errorMessage)] st
           | None \<Rightarrow>
               (let commandText =
                      (case folderOpt of
                         Some f \<Rightarrow>
                           if f \<noteq> [] \<and> trim f \<noteq> [] then ''npx htflow audit '' @ trim f
                           else ''npx htflow audit''
                       | None \<Rightarrow> ''npx htflow audit'');
                    tm = Terminal ''HTFlow: audit'' fsPath;
                    st1 = emit [CreateTerminal tm, TerminalShow tm,
                                TerminalSendText tm commandText True] st
                in case execOutcome h of
                     ExecOk stdout stderr \<Rightarrow>
                       (let out = strOr stdout (strOr stderr ''No output received'')
                        in emit ((if view st1 then [PostView (AuditResults out)] else [])
                                 @ (if currentPanel st1 then [PostPanel (AuditResults out)] else [])
                                 @ [ShowInformationMessage successMessage]) st1)
                   | ExecError stdout stderr msg code \<Rightarrow>
                       (let errorOutput = strOr stdout (strOr stderr msg)
                        in emit ((if errorOutput \<noteq> [] then
                                    (if view st1 then [PostView (AuditResults errorOutput)] else [])
                                    @ (if currentPanel st1 then [PostPanel (AuditResults errorOutput)]
                                       else [])
                                  else [])
                                 @ [ShowErrorMessage (''HTFlow audit failed: '' @ msg)]) st1))))"

section \<open>The message handlers\<close>

text \<open>
  A message is an object: a function from field names to values, \<open>undefined\<close> for a
  field it does not have.
\<close>

type_synonym webviewMessage = "string \<Rightarrow> jsval"

text \<open>
  Two conversions of the language are parameters of the handlers: the number a string
  converts to, and the text of a number.
\<close>

record jsprims =
  stringToNumber :: "string \<Rightarrow> jsnum"
  numberToString :: "jsnum \<Rightarrow> string"

text \<open>
  \<open>Number(v)\<close> and \<open>v.toString()\<close> (also the text of \<open>v\<close> in a template literal).
  An object or array converts to a number through its text.
\<close>

fun toNumber :: "jsprims \<Rightarrow> jsval \<Rightarrow> jsnum" where
  "toNumber P JUndefined = NaN"
| "toNumber P JNull = Num 0"
| "toNumber P (JBool b) = Num (if b then 1 else 0)"
| "toNumber P (JNum n) = n"
| "toNumber P (JStr s) = stringToNumber P s"
| "toNumber P (JObj s) = stringToNumber P s"

fun toText :: "jsprims \<Rightarrow> jsval \<Rightarrow> string" where
  "toText P JUndefined = ''undefined''"
| "toText P JNull = ''null''"
| "toText P (JBool b) = (if b then ''true'' else ''false'')"
| "toText P (JNum n) = numberToString P n"
| "toText P (JStr s) = s"
| "toText P (JObj s) = s"

text \<open>
  The operation a handler calls for a message, with the arguments it passes. Arguments
  read from the message are JavaScript values.
\<close>

datatype action =
    ShowInformation string
  | OpenBrowserPanel
  | ExecuteHTFlowCommandForPanel string string
  | ExecuteHTFlowAuditForPanel jsval string
  | ExecuteHTFlowCommandWithFolder string jsval string
  | ReloadWindow
  | VscodeOpenFile string jsval
  | StartHTFlowServer jsval string jsval origin jsval
  | HandleToolAction jsval
  | HandleSettingChange jsval jsval
  | ValidateSpecificFile jsval
  | ExecuteNpmCommand string string
  | StopServer jsval jsval
  | VscodeOpenUrl jsval
  | OpenExternal jsval
  | OpenIndexInBrowser
  | NoAction

text \<open>
  The handler that \<open>resolveWebviewView\<close> installs on the sidebar view: the \<open>switch\<close> on
  \<open>message.command\<close>, which compares with \<open>===\<close>. \<open>ws\<close> is the path of the first
  workspace folder, if any. What the called operation does, and the \<open>catch\<close> around the
  \<open>switch\<close> for what it throws, are not part of this function.
\<close>

definition sidebarHandler :: "jsprims \<Rightarrow> string option \<Rightarrow> webviewMessage \<Rightarrow> action" where
  "sidebarHandler P ws msg =
     (if msg ''command'' = JStr ''ready'' then
            ShowInformation ''HTFlow panel loaded successfully!''
      else if msg ''command'' = JStr ''openBrowserPanel'' then
            OpenBrowserPanel
      else if msg ''command'' = JStr ''htflow.init'' then
            ExecuteHTFlowCommandForPanel ''init'' ''HTFlow project initialized successfully!''
      else if msg ''command'' = JStr ''htflow.validate'' then
            ExecuteHTFlowCommandForPanel ''validate'' ''Validation completed successfully!''
      else if msg ''command'' = JStr ''htflow.audit'' then
            (if truthy (msg ''displayInPanel'')
              then ExecuteHTFlowAuditForPanel (msg ''folder'') ''Audit completed successfully!''
              else ExecuteHTFlowCommandWithFolder ''audit'' (msg ''folder'')
                     ''Audit completed successfully!'')
      else if msg ''command'' = JStr ''refreshWorkspace'' then
            ReloadWindow
      else if msg ''command'' = JStr ''openFile'' then
            (if truthy (msg ''path'')
              then (case ws of Some fsPath \<Rightarrow> VscodeOpenFile fsPath (msg ''path'')
                    | None \<Rightarrow> NoAction)
              else NoAction)
      else if msg ''command'' = JStr ''startLiveServer'' then
            StartHTFlowServer (jsOr (msg ''port'') (JNum (Num 3000))) ''dev'' JUndefined Browser
                (JBool False)
      else if msg ''command'' = JStr ''toolAction'' then
            HandleToolAction (msg ''tool'')
      else if msg ''command'' = JStr ''settingChange'' then
            HandleSettingChange (msg ''setting'') (msg ''value'')
      else if msg ''command'' = JStr ''validateFile'' then
            (if truthy (msg ''path'') then ValidateSpecificFile (msg ''path'') else NoAction)
      else if msg ''command'' = JStr ''htflow.audit.html'' then
            ExecuteHTFlowCommandForPanel ''audit --html''
                ''HTML audit report generated successfully!''
      else if msg ''command'' = JStr ''htflow.build'' then
            ExecuteHTFlowCommandForPanel ''build'' ''Project built successfully!''
      else if msg ''command'' = JStr ''htflow.serve.dev'' then
            StartHTFlowServer
                (if truthy (msg ''port'') then JNum (toNumber P (msg ''port'')) else JNum (Num 3050))
                ''dev'' (msg ''folder'') Sidebar
                (jsAnd (msg ''port'') (JBool (trim (toText P (msg ''port'')) \<noteq> [])))
      else if msg ''command'' = JStr ''htflow.serve.prod'' then
            StartHTFlowServer
                (if truthy (msg ''port'') then JNum (toNumber P (msg ''port'')) else JNum (Num 3051))
                ''start'' (msg ''folder'') Sidebar
                (jsAnd (msg ''port'') (JBool (trim (toText P (msg ''port'')) \<noteq> [])))
      else if msg ''command'' = JStr ''htflow.serve.custom'' then
            StartHTFlowServer (jsOr (msg ''port'') (JNum (Num 3000))) ''dev'' JUndefined Sidebar
                (JBool False)
      else if msg ''command'' = JStr ''htflow.version'' then
            ExecuteHTFlowCommandForPanel ''version'' ''HTFlow version checked successfully!''
      else if msg ''command'' = JStr ''htflow.mcp-install'' then
            ExecuteHTFlowCommandForPanel ''mcp-install''
                ''MCP configuration installed successfully!''
      else if msg ''command'' = JStr ''htflow.mcp-uninstall'' then
            ExecuteHTFlowCommandForPanel ''mcp-uninstall''
                ''MCP configuration uninstalled successfully!''
      else if msg ''command'' = JStr ''htflow.mcp-status'' then
            ExecuteHTFlowCommandForPanel ''mcp-status'' ''MCP status checked successfully!''
      else if msg ''command'' = JStr ''npm.install'' then
            ExecuteNpmCommand ''install -g htflow-cli'' ''HTFlow CLI installed successfully!''
      else if msg ''command'' = JStr ''npm.update'' then
            ExecuteNpmCommand ''install -g htflow-cli@latest'' ''HTFlow CLI updated successfully!''
      else if msg ''command'' = JStr ''npm.uninstall'' then
            ExecuteNpmCommand ''uninstall -g htflow-cli''
                ''HTFlow CLI uninstalled successfully!''
      else if msg ''command'' = JStr ''stopServer'' then
            StopServer (msg ''serverId'') (msg ''port'')
      else if msg ''command'' = JStr ''openUrl'' then
            (if truthy (msg ''url'') then VscodeOpenUrl (msg ''url'') else NoAction)
      else if msg ''command'' = JStr ''openExternal'' then
            (if truthy (msg ''url'') then OpenExternal (msg ''url'') else NoAction)
      else if msg ''command'' = JStr ''openIndexInBrowser'' then
            OpenIndexInBrowser
      else ShowInformation (''HTFlow: '' @ toText P (msg ''command'')))"

text \<open>
  The handler that \<open>attachMessageHandler\<close> installs on the detached panel's webview.
\<close>

definition panelHandler :: "jsprims \<Rightarrow> string option \<Rightarrow> webviewMessage \<Rightarrow> action" where
  "panelHandler P ws msg =
     (if msg ''command'' = JStr ''ready'' then
            ShowInformation ''HTFlow panel loaded successfully!''
      else if msg ''command'' = JStr ''openBrowserPanel'' then
            OpenBrowserPanel
      else if msg ''command'' = JStr ''htflow.init'' then
            ExecuteHTFlowCommandForPanel ''init'' ''HTFlow project initialized successfully!''
      else if msg ''command'' = JStr ''htflow.validate'' then
            ExecuteHTFlowCommandForPanel ''validate'' ''Validation completed successfully!''
      else if msg ''command'' = JStr ''htflow.audit'' then
            (if truthy (msg ''displayInPanel'')
              then ExecuteHTFlowAuditForPanel (msg ''folder'') ''Audit completed successfully!''
              else ExecuteHTFlowCommandWithFolder ''audit'' (msg ''folder'')
                     ''Audit completed successfully!'')
      else if msg ''command'' = JStr ''refreshWorkspace'' then
            ReloadWindow
      else if msg ''command'' = JStr ''openFile'' then
            (if truthy (msg ''path'')
              then (case ws of Some fsPath \<Rightarrow> VscodeOpenFile fsPath (msg ''path'')
                    | None \<Rightarrow> NoAction)
              else NoAction)
      else if msg ''command'' = JStr ''startLiveServer'' then
            StartHTFlowServer (jsOr (msg ''port'') (JNum (Num 3000))) ''dev'' JUndefined Browser
                (JBool False)
      else if msg ''command'' = JStr ''toolAction'' then
            HandleToolAction (msg ''tool'')
      else if msg ''command'' = JStr ''settingChange'' then
            HandleSettingChange (msg ''setting'') (msg ''value'')
      else if msg ''command'' = JStr ''validateFile'' then
            (if truthy (msg ''path'') then ValidateSpecificFile (msg ''path'') else NoAction)
      else if msg ''command'' = JStr ''htflow.audit.html'' then
            ExecuteHTFlowCommandForPanel ''audit --html''
                ''HTML audit report generated successfully!''
      else if msg ''command'' = JStr ''htflow.build'' then
            ExecuteHTFlowCommandForPanel ''build'' ''Project built successfully!''
      else if msg ''command'' = JStr ''htflow.serve.dev'' then
            StartHTFlowServer
                (if truthy (msg ''port'') then JNum (toNumber P (msg ''port'')) else JNum (Num 3050))
                ''dev'' (msg ''folder'') Sidebar
                (jsAnd (msg ''port'') (JBool (trim (toText P (msg ''port'')) \<noteq> [])))
      else if msg ''command'' = JStr ''htflow.serve.prod'' then
            StartHTFlowServer
                (if truthy (msg ''port'') then JNum (toNumber P (msg ''port'')) else JNum (Num 3051))
                ''start'' (msg ''folder'') Sidebar
                (jsAnd (msg ''port'') (JBool (trim (toText P (msg ''port'')) \<noteq> [])))
      else if msg ''command'' = JStr ''htflow.serve.custom'' then
            StartHTFlowServer (jsOr (msg ''port'') (JNum (Num 3000))) ''dev'' JUndefined Sidebar
                (JBool False)
      else if msg ''command'' = JStr ''htflow.version'' then
            ExecuteHTFlowCommandForPanel ''version'' ''HTFlow version checked successfully!''
      else if msg ''command'' = JStr ''htflow.mcp-install'' then
            ExecuteHTFlowCommandForPanel ''mcp-install''
                ''MCP configuration installed successfully!''
      else if msg ''command'' = JStr ''htflow.mcp-uninstall'' then
            ExecuteHTFlowCommandForPanel ''mcp-uninstall''
                ''MCP configuration uninstalled successfully!''
      else if msg ''command'' = JStr ''htflow.mcp-status'' then
            ExecuteHTFlowCommandForPanel ''mcp-status'' ''MCP status checked successfully!''
      else if msg ''command'' = JStr ''npm.install'' then
            ExecuteNpmCommand ''install -g htflow-cli'' ''HTFlow CLI installed successfully!''
      else if msg ''command'' = JStr ''npm.update'' then
            ExecuteNpmCommand ''install -g htflow-cli@latest'' ''HTFlow CLI updated successfully!''
      else if msg ''command'' = JStr ''npm.uninstall'' then
            ExecuteNpmCommand ''uninstall -g htflow-cli''
                ''HTFlow CLI uninstalled successfully!''
      else if msg ''command'' = JStr ''stopServer'' then
            StopServer (msg ''serverId'') (msg ''port'')
      else if msg ''command'' = JStr ''openUrl'' then
            (if truthy (msg ''url'') then VscodeOpenUrl (msg ''url'') else NoAction)
      else if msg ''command'' = JStr ''openExternal'' then
            (if truthy (msg ''url'') then OpenExternal (msg ''url'') else NoAction)
      else if msg ''command'' = JStr ''openIndexInBrowser'' then
            OpenIndexInBrowser
      else ShowInformation (''HTFlow: '' @ toText P (msg ''command'')))"

text \<open>
  The \<open>startLiveServer\<close> case of the handler that \<open>openBrowserPanel\<close> installs on
  the embedded browser panel: the call of \<open>startHTFlowServer\<close> it makes.
\<close>

definition browserStartLiveServer :: "jsprims \<Rightarrow> webviewMessage \<Rightarrow> action" where
  "browserStartLiveServer P msg =
     (let parsedPort = toNumber P (msg ''port'');
          requestedPort = (case parsedPort of
                             Num r \<Rightarrow> max 1 (min 65535 \<lfloor>r\<rfloor>)
                           | _ \<Rightarrow> (3000 :: int));
          requestedMode = (case msg ''mode'' of
                             JStr s \<Rightarrow> if s \<noteq> [] \<and> trim s \<noteq> [] then trim s else ''dev''
                           | _ \<Rightarrow> ''dev'')
      in StartHTFlowServer (JNum (Num (of_int requestedPort))) requestedMode (msg ''folder'')
           Browser (JBool True))"

text \<open>The command names the two \<open>switch\<close> statements have a case for.\<close>

definition knownCommands :: "string list" where
  "knownCommands =
     [''ready'', ''openBrowserPanel'', ''htflow.init'', ''htflow.validate'', ''htflow.audit'',
      ''refreshWorkspace'', ''openFile'', ''startLiveServer'', ''toolAction'', ''settingChange'',
      ''validateFile'', ''htflow.audit.html'', ''htflow.build'', ''htflow.serve.dev'',
      ''htflow.serve.prod'', ''htflow.serve.custom'', ''htflow.version'', ''htflow.mcp-install'',
      ''htflow.mcp-uninstall'', ''htflow.mcp-status'', ''npm.install'', ''npm.update'',
      ''npm.uninstall'', ''stopServer'', ''openUrl'', ''openExternal'', ''openIndexInBrowser'']"

section \<open>Observations\<close>

text \<open>The Registry entries with a given port and mode.\<close>

definition serversOn :: "int \<Rightarrow> string \<Rightarrow> provider \<Rightarrow> (string \<times> RunningServer) list" where
  "serversOn p m st =
     filter (\<lambda>(serverId, server). port server = p \<and> mode server = m) (runningServers st)"

text \<open>
  A sequence of calls of \<open>startHTFlowServer\<close> with the same port and mode; the host,
  the folder, the origin and the port flag may differ from call to call. The results are
  returned in order.
\<close>

fun startAll ::
  "jsval \<Rightarrow> string \<Rightarrow> (startHost \<times> string option \<times> origin \<times> bool) list \<Rightarrow> provider
     \<Rightarrow> (string \<times> RunningServer) option list \<times> provider" where
  "startAll p m [] st = ([], st)"
| "startAll p m ((h, f, orig, has) # calls) st =
     (let (r, st1) = startHTFlowServer h p m f orig has st;
          (rs, st2) = startAll p m calls st1
      in (r # rs, st2))"


text \<open>The messages posted to the sidebar view and to the detached panel, in order.\<close>

fun delivered :: "event list \<Rightarrow> message list" where
  "delivered [] = []"
| "delivered (PostView x # es) = x # delivered es"
| "delivered (PostPanel x # es) = x # delivered es"
| "delivered (e # es) = delivered es"

text \<open>The exit code and the success flag a posted message carries, if it carries one.\<close>

fun resultExitCode :: "message \<Rightarrow> jsval option" where
  "resultExitCode (CommandResults d) = Some (exitCode d)"
| "resultExitCode x = None"

fun resultSuccess :: "message \<Rightarrow> bool option" where
  "resultSuccess (CommandResults d) = Some (success d)"
| "resultSuccess x = None"

text \<open>A message as posted to the sidebar view and to the detached panel, where they exist.\<close>

definition postedTo :: "provider \<Rightarrow> message \<Rightarrow> message list" where
  "postedTo st x = (if view st then [x] else []) @ (if currentPanel st then [x] else [])"

text \<open>The live-preview target is absent or a key of the Registry.\<close>

definition targetRegistered :: "provider \<Rightarrow> bool" where
  "targetRegistered st =
     (case browserLiveServerId st of
        None \<Rightarrow> True
      | Some serverId \<Rightarrow> map_of (runningServers st) serverId \<noteq> None)"

section \<open>Example inputs\<close>

text \<open>The provider as its constructor leaves it, before any webview is resolved.\<close>

definition initialProvider :: provider where
  "initialProvider =
     \<lparr>view = False, currentPanel = False, browserPanel = None, fileWatcher = True,
      runningServers = [], terminals = [], browserLiveServerId = None, events = []\<rparr>"

text \<open>A host with an open workspace, in which nothing throws.\<close>

definition exampleHost :: startHost where
  "exampleHost = \<lparr>workspaceFolder = Some ''/work'', dateNow = 17, newDate = 18,
                   createTerminalError = None\<rparr>"

definition quietStop :: stopHost where
  "quietStop = \<lparr>interruptError = None, disposeError = None\<rparr>"

definition startedProvider :: provider where
  "startedProvider =
     snd (startHTFlowServer exampleHost (JNum (Num 3050)) ''dev'' None Browser True initialProvider)"

definition exampleCalls :: "(startHost \<times> string option \<times> origin \<times> bool) list" where
  "exampleCalls =
     [(exampleHost\<lparr>dateNow := 99\<rparr>, Some ''site'', Sidebar, False),
      (exampleHost\<lparr>workspaceFolder := None\<rparr>, None, Browser, True)]"

text \<open>A captured command that fails with text on stderr only and exit code 2.\<close>

definition failingExec :: execHost where
  "failingExec = \<lparr>workspaceFolder = Some ''/work'', dateNow = 17, newDate = 18,
                   createTerminalError = None,
                   execOutcome = ExecError [] ''boom'' ''Command failed: npx htflow audit'' (JNum (Num 2)),
                   dateNowAfter = 40\<rparr>"

text \<open>Conversions that know the number 8080, and a \<open>startLiveServer\<close> message.\<close>

definition examplePrims :: jsprims where
  "examplePrims = \<lparr>stringToNumber = (\<lambda>s. if s = ''8080'' then Num 8080 else NaN),
                    numberToString = (\<lambda>n. if n = Num 8080 then ''8080'' else ''NaN'')\<rparr>"

definition exampleMessage :: webviewMessage where
  "exampleMessage =
     (\<lambda>k. if k = ''command'' then JStr ''startLiveServer''
          else if k = ''mode'' then JStr '' start ''
          else if k = ''folder'' then JStr ''site''
          else JUndefined)"

section \<open>Evaluating the examples\<close>

lemmas example_defs =
  exampleHost_def initialProvider_def quietStop_def normalizedPort_def portParameter_def
  defaultPort_def findRunningServerByPort_def ensureBrowserPortMapping_def serverCommand_def
  emit_def string_of_int_def string_of_nat.simps digit_def trim_def isWhiteSpace_def Let_def

lemma startedProvider_eq:
  "startedProvider =
     \<lparr>view = False, currentPanel = False, browserPanel = None, fileWatcher = True,
      runningServers =
        [(''dev-3050-17'',
          \<lparr>port = 3050, mode = ''dev'', folder = [], startTime = 18,
           terminal = Terminal ''HTFlow Server (dev:3050)'' ''/work'', origin = Browser\<rparr>)],
      terminals = [(''dev-3050-17'', Terminal ''HTFlow Server (dev:3050)'' ''/work'')],
      browserLiveServerId = Some ''dev-3050-17'',
      events =
        [CreateTerminal (Terminal ''HTFlow Server (dev:3050)'' ''/work''),
         TerminalShow (Terminal ''HTFlow Server (dev:3050)'' ''/work''),
         TerminalSendText (Terminal ''HTFlow Server (dev:3050)'' ''/work'')
           ''npx htflow serve dev -p 3050'' True,
         SetStatusBarMessage ''HTFlow dev server starting on port 3050...'' 4000]\<rparr>"
  by (simp add: startedProvider_def startHTFlowServer_def example_defs)

section \<open>Port normalisation\<close>

lemma findRunningServerByPort_port:
  "findRunningServerByPort p md st = Some (serverId, server) \<Longrightarrow> port server = p"
  by (auto simp: findRunningServerByPort_def find_Some_iff)

lemma startHTFlowServer_result_port:
  assumes "fst (startHTFlowServer h p m f orig has st) = Some (serverId, server)"
  shows "port server = normalizedPort (portParameter p) m"
  using assms
  by (auto simp: startHTFlowServer_def Let_def split: option.splits if_splits
           dest: findRunningServerByPort_port)

text \<open>
  C2, as the spec states it: port 0 and port 99999 become the mode's default. The code
  clamps them instead. Started with port 0 in mode \<open>dev\<close>, the new server has port 1,
  not 3050.
\<close>

theorem startHTFlowServer_port_zero_counterexample:
  "map_option (port \<circ> snd)
     (fst (startHTFlowServer exampleHost (JNum (Num 0)) ''dev'' None Sidebar False initialProvider))
   = Some 1
   \<and> map_option (port \<circ> snd)
       (fst (startHTFlowServer exampleHost (JNum (Num 0)) ''dev'' None Sidebar False initialProvider))
     \<noteq> Some (defaultPort ''dev'')"
  by (simp add: startHTFlowServer_def example_defs)

text \<open>
  C2, amended: whenever \<open>startHTFlowServer\<close> returns a server, its port is 3000 for an
  omitted port argument, the floor of the argument clamped into 1..65535 for a finite
  number (so 0 gives 1 and 99999 gives 65535), and the mode's default for every other
  value (NaN, the infinities, strings, the empty string, null, booleans, objects): 3050
  for \<open>dev\<close>, 3051 for \<open>start\<close>, 3000 otherwise.
\<close>

theorem startHTFlowServer_port_normalization:
  assumes "fst (startHTFlowServer h p m f orig has st) = Some (serverId, server)"
  shows "port server =
           (case p of
              JUndefined \<Rightarrow> 3000
            | JNum (Num r) \<Rightarrow> max 1 (min 65535 \<lfloor>r\<rfloor>)
            | _ \<Rightarrow> (if m = ''dev'' then 3050 else if m = ''start'' then 3051 else 3000))"
proof -
  have "port server = normalizedPort (portParameter p) m"
    using assms by (rule startHTFlowServer_result_port)
  then show ?thesis
    by (simp add: normalizedPort_def portParameter_def defaultPort_def
             split: jsval.splits jsnum.splits)
qed

theorem startHTFlowServer_port_normalization_witness:
  "fst (startHTFlowServer exampleHost (JStr []) ''start'' None Sidebar False initialProvider)
     = Some (''start-3051-17'',
             \<lparr>port = 3051, mode = ''start'', folder = [], startTime = 18,
              terminal = Terminal ''HTFlow Server (start:3051)'' ''/work'', origin = Sidebar\<rparr>)
   \<and> port \<lparr>port = 3051, mode = ''start'', folder = [], startTime = 18,
            terminal = Terminal ''HTFlow Server (start:3051)'' ''/work'', origin = Sidebar\<rparr>
       = (case JStr [] of
            JUndefined \<Rightarrow> 3000
          | JNum (Num r) \<Rightarrow> max 1 (min 65535 \<lfloor>r\<rfloor>)
          | _ \<Rightarrow> (if ''start'' = ''dev'' then 3050 else if ''start'' = ''start'' then 3051 else 3000))"
proof -
  have h: "fst (startHTFlowServer exampleHost (JStr []) ''start'' None Sidebar False initialProvider)
     = Some (''start-3051-17'',
             \<lparr>port = 3051, mode = ''start'', folder = [], startTime = 18,
              terminal = Terminal ''HTFlow Server (start:3051)'' ''/work'', origin = Sidebar\<rparr>)"
    by (simp add: startHTFlowServer_def example_defs)
  show ?thesis
    using h startHTFlowServer_port_normalization [OF h] by blast
qed

section \<open>Properties of stopping\<close>

lemma stopCleanup_servers:
  "runningServers (snd (stopCleanup i rp b st)) = AList.delete i (runningServers st)"
  by (simp add: stopCleanup_def Let_def emit_def)

lemma stopCleanup_terminals: "terminals (snd (stopCleanup i rp b st)) = terminals st"
  by (simp add: stopCleanup_def Let_def emit_def)

lemma stopCleanup_fst: "fst (stopCleanup i rp b st)"
  by (simp add: stopCleanup_def Let_def)

lemma stopServer_true:
  assumes "fst (stopServer h i p st)"
  shows "disposeError h = None"
    and "map_of (runningServers st) i \<noteq> None \<or> map_of (terminals st) i \<noteq> None"
    and "runningServers (snd (stopServer h i p st)) = AList.delete i (runningServers st)"
    and "terminals (snd (stopServer h i p st)) = AList.delete i (terminals st)"
  using assms
  by (auto simp: stopServer_def Let_def stopCleanup_servers stopCleanup_terminals emit_def
           split: option.splits if_splits)

lemma stopServer_false:
  assumes "\<not> fst (stopServer h i p st)"
  shows "(map_of (runningServers st) i = None \<and> map_of (terminals st) i = None)
         \<or> disposeError h \<noteq> None"
    and "runningServers (snd (stopServer h i p st)) = runningServers st"
    and "terminals (snd (stopServer h i p st)) = terminals st"
    and "browserLiveServerId (snd (stopServer h i p st)) = browserLiveServerId st"
  using assms
  by (auto simp: stopServer_def Let_def stopCleanup_fst emit_def split: option.splits if_splits)

text \<open>
  C6: for an identifier with neither a Registry entry nor a terminal handle,
  \<open>stopServer\<close> returns false and leaves the provider as it was: the Registry, the
  terminal map and the live-preview target are unchanged, and nothing is added to the
  events, so no \<open>serverStopped\<close> and no \<open>liveServerStopped\<close> is posted to any surface.
\<close>

theorem stopServer_not_found:
  assumes "map_of (runningServers st) serverId = None"
      and "map_of (terminals st) serverId = None"
  shows "stopServer h serverId p st = (False, st)"
  using assms by (simp add: stopServer_def)

theorem stopServer_not_found_witness:
  "map_of (runningServers startedProvider) ''start-3051-5'' = None
   \<and> map_of (terminals startedProvider) ''start-3051-5'' = None
   \<and> stopServer quietStop ''start-3051-5'' (Some 3051) startedProvider = (False, startedProvider)"
proof -
  have a: "map_of (runningServers startedProvider) ''start-3051-5'' = None"
    by (simp add: startedProvider_eq)
  have b: "map_of (terminals startedProvider) ''start-3051-5'' = None"
    by (simp add: startedProvider_eq)
  show ?thesis
    using a b stopServer_not_found [OF a b, of quietStop "Some 3051"] by blast
qed

text \<open>
  C5: when \<open>stopServer(id)\<close> returns true, \<open>id\<close> is afterwards absent from the
  Registry and from the terminal map, and a second \<open>stopServer(id)\<close>, whatever the host
  does and whatever port hint it is given, returns false.
\<close>

theorem stopServer_clears_mapping:
  assumes "fst (stopServer h serverId p st)"
  shows "map_of (runningServers (snd (stopServer h serverId p st))) serverId = None
       \<and> map_of (terminals (snd (stopServer h serverId p st))) serverId = None
       \<and> \<not> fst (stopServer h' serverId p' (snd (stopServer h serverId p st)))"
proof -
  have r: "map_of (runningServers (snd (stopServer h serverId p st))) serverId = None"
    using stopServer_true(3) [OF assms] by (simp add: delete_conv')
  have t: "map_of (terminals (snd (stopServer h serverId p st))) serverId = None"
    using stopServer_true(4) [OF assms] by (simp add: delete_conv')
  have "stopServer h' serverId p' (snd (stopServer h serverId p st))
          = (False, snd (stopServer h serverId p st))"
    using r t by (simp add: stopServer_def)
  with r t show ?thesis by simp
qed

theorem stopServer_clears_mapping_witness:
  "fst (stopServer quietStop ''dev-3050-17'' None startedProvider)
   \<and> map_of (runningServers (snd (stopServer quietStop ''dev-3050-17'' None startedProvider)))
       ''dev-3050-17'' = None
   \<and> map_of (terminals (snd (stopServer quietStop ''dev-3050-17'' None startedProvider)))
       ''dev-3050-17'' = None
   \<and> \<not> fst (stopServer quietStop ''dev-3050-17'' None
             (snd (stopServer quietStop ''dev-3050-17'' None startedProvider)))"
proof -
  have h: "fst (stopServer quietStop ''dev-3050-17'' None startedProvider)"
    by (simp add: startedProvider_eq stopServer_def stopCleanup_def example_defs)
  show ?thesis
    using h stopServer_clears_mapping [OF h, of quietStop None] by blast
qed

text \<open>
  C4, as the spec states it: a failing disposal is not fatal and the entry is removed
  regardless. In the code only the interrupt is guarded. When \<open>terminal.dispose()\<close>
  throws for a server that is in the Registry, \<open>stopServer\<close> returns false and the
  entry stays.
\<close>

theorem stopServer_dispose_failure_counterexample:
  "map_of (runningServers startedProvider) ''dev-3050-17'' \<noteq> None
   \<and> \<not> fst (stopServer \<lparr>interruptError = None, disposeError = Some ''disposed''\<rparr>
              ''dev-3050-17'' None startedProvider)
   \<and> map_of (runningServers
               (snd (stopServer \<lparr>interruptError = None, disposeError = Some ''disposed''\<rparr>
                      ''dev-3050-17'' None startedProvider)))
        ''dev-3050-17'' \<noteq> None"
  by (simp add: startedProvider_eq stopServer_def example_defs)

text \<open>
  C4, amended: \<open>stopServer(id)\<close> returns true exactly when the id has a Registry entry or
  a terminal handle and \<open>terminal.dispose()\<close> does not throw; a failure to send the
  interrupt changes nothing of this. When it returns true the Registry entry is removed.
  When it returns false (the id has neither, or the disposal threw) the Registry and the
  terminal map are unchanged.
\<close>

theorem stopServer_outcome:
  "(fst (stopServer h serverId p st) \<longleftrightarrow>
      (map_of (runningServers st) serverId \<noteq> None \<or> map_of (terminals st) serverId \<noteq> None)
      \<and> disposeError h = None)
   \<and> (fst (stopServer h serverId p st) \<longrightarrow>
        map_of (runningServers (snd (stopServer h serverId p st))) serverId = None)
   \<and> (\<not> fst (stopServer h serverId p st) \<longrightarrow>
        runningServers (snd (stopServer h serverId p st)) = runningServers st
        \<and> terminals (snd (stopServer h serverId p st)) = terminals st)"
proof -
  have 1: "fst (stopServer h serverId p st) \<longleftrightarrow>
      (map_of (runningServers st) serverId \<noteq> None \<or> map_of (terminals st) serverId \<noteq> None)
      \<and> disposeError h = None"
    by (auto simp: stopServer_def Let_def stopCleanup_fst split: option.splits)
  have 2: "fst (stopServer h serverId p st) \<longrightarrow>
        map_of (runningServers (snd (stopServer h serverId p st))) serverId = None"
    using stopServer_true(3) [of h serverId p st] by (simp add: delete_conv')
  have 3: "\<not> fst (stopServer h serverId p st) \<longrightarrow>
        runningServers (snd (stopServer h serverId p st)) = runningServers st
        \<and> terminals (snd (stopServer h serverId p st)) = terminals st"
    using stopServer_false(2,3) [of h serverId p st] by simp
  from 1 2 3 show ?thesis by blast
qed

theorem stopServer_outcome_witness:
  "map_of (runningServers startedProvider) ''dev-3050-17'' \<noteq> None
   \<and> disposeError \<lparr>interruptError = Some ''closed'', disposeError = None\<rparr> = None
   \<and> fst (stopServer \<lparr>interruptError = Some ''closed'', disposeError = None\<rparr>
            ''dev-3050-17'' None startedProvider)
   \<and> map_of (runningServers
               (snd (stopServer \<lparr>interruptError = Some ''closed'', disposeError = None\<rparr>
                      ''dev-3050-17'' None startedProvider)))
        ''dev-3050-17'' = None"
proof -
  have a: "map_of (runningServers startedProvider) ''dev-3050-17'' \<noteq> None"
    by (simp add: startedProvider_eq)
  have b: "disposeError \<lparr>interruptError = Some ''closed'', disposeError = None\<rparr> = None"
    by simp
  show ?thesis
    using a b
      stopServer_outcome [of "\<lparr>interruptError = Some ''closed'', disposeError = None\<rparr>"
                             "''dev-3050-17''" None startedProvider]
    by blast
qed

section \<open>No duplicate server for a port and mode\<close>

text \<open>
  A call that finds an entry returns it and leaves the Registry alone; a call that finds
  none either fails, leaving the Registry alone, or sets one entry with \<open>Map.set\<close>.
\<close>

lemma ensure_servers [simp]: "runningServers (ensureBrowserPortMapping p st) = runningServers st"
  by (simp add: ensureBrowserPortMapping_def split: option.splits)

lemma emit_servers [simp]: "runningServers (emit es st) = runningServers st"
  by (simp add: emit_def)

lemma start_existing_fst:
  assumes "findRunningServerByPort (normalizedPort (portParameter p) m) (Some m) st = Some first"
  shows "fst (startHTFlowServer h p m f orig has st) = Some first"
proof -
  obtain i s where fs: "first = (i, s)" by (cases first)
  show ?thesis using assms unfolding fs startHTFlowServer_def Let_def by simp
qed

lemma start_existing_servers:
  assumes "findRunningServerByPort (normalizedPort (portParameter p) m) (Some m) st = Some first"
  shows "runningServers (snd (startHTFlowServer h p m f orig has st)) = runningServers st"
proof -
  obtain i s where fs: "first = (i, s)" by (cases first)
  show ?thesis using assms unfolding fs startHTFlowServer_def Let_def by simp
qed


lemma find_update_new:
  "find Q al = None \<Longrightarrow> Q (k, v) \<Longrightarrow> find Q (AList.update k v al) = Some (k, v)"
  by (induction al) (auto split: if_splits)

lemma filter_update_new:
  "filter Q al = [] \<Longrightarrow> length (filter Q (AList.update k v al)) \<le> 1"
  by (induction al) (auto split: if_splits)

lemma start_miss:
  assumes "findRunningServerByPort (normalizedPort (portParameter p) m) (Some m) st = None"
  shows "fst (startHTFlowServer h p m f orig has st) = None
           \<and> runningServers (snd (startHTFlowServer h p m f orig has st)) = runningServers st
         \<or> (\<exists>serverId server.
              port server = normalizedPort (portParameter p) m \<and> mode server = m
              \<and> fst (startHTFlowServer h p m f orig has st) = Some (serverId, server)
              \<and> runningServers (snd (startHTFlowServer h p m f orig has st))
                  = AList.update serverId server (runningServers st))"
proof (cases "workspaceFolder h")
  case None
  then show ?thesis using assms unfolding startHTFlowServer_def Let_def by simp
next
  case (Some ws)
  show ?thesis
  proof (cases "createTerminalError h")
    case None
    then show ?thesis using assms Some unfolding startHTFlowServer_def Let_def by simp
  next
    case (Some e)
    then show ?thesis using assms \<open>workspaceFolder h = Some ws\<close>
      unfolding startHTFlowServer_def Let_def by simp
  qed
qed


lemma startAll_Cons_fst:
  "fst (startAll p m ((h, f, orig, has) # calls) st) =
     fst (startHTFlowServer h p m f orig has st)
       # fst (startAll p m calls (snd (startHTFlowServer h p m f orig has st)))"
  by (simp add: split_beta)

lemma startAll_Cons_snd:
  "snd (startAll p m ((h, f, orig, has) # calls) st) =
     snd (startAll p m calls (snd (startHTFlowServer h p m f orig has st)))"
  by (simp add: split_beta)

lemma find_None_serversOn:
  "findRunningServerByPort p (Some m) st = None \<Longrightarrow> serversOn p m st = []"
  by (auto simp: findRunningServerByPort_def serversOn_def find_None_iff filter_empty_conv)

lemma start_count:
  assumes "length (serversOn (normalizedPort (portParameter p) m) m st) \<le> 1"
  shows "length (serversOn (normalizedPort (portParameter p) m) m
                   (snd (startHTFlowServer h p m f orig has st))) \<le> 1"
proof (cases "findRunningServerByPort (normalizedPort (portParameter p) m) (Some m) st")
  case (Some first)
  then show ?thesis
    using assms start_existing_servers [OF Some, of h f orig has] by (simp add: serversOn_def)
next
  case None
  have e: "serversOn (normalizedPort (portParameter p) m) m st = []"
    using None by (rule find_None_serversOn)
  from start_miss [OF None, of h f orig has] show ?thesis
  proof (elim disjE exE conjE)
    assume "runningServers (snd (startHTFlowServer h p m f orig has st)) = runningServers st"
    then show ?thesis using assms by (simp add: serversOn_def)
  next
    fix serverId server
    assume "runningServers (snd (startHTFlowServer h p m f orig has st))
              = AList.update serverId server (runningServers st)"
    moreover have "length (filter (\<lambda>(serverId, server).
                 port server = normalizedPort (portParameter p) m \<and> mode server = m)
              (AList.update serverId server (runningServers st))) \<le> 1"
      using e unfolding serversOn_def by (rule filter_update_new)
    ultimately show ?thesis by (simp add: serversOn_def)
  qed
qed

lemma start_found_after:
  assumes "fst (startHTFlowServer h p m f orig has st) = Some first"
  shows "findRunningServerByPort (normalizedPort (portParameter p) m) (Some m)
           (snd (startHTFlowServer h p m f orig has st)) = Some first"
proof (cases "findRunningServerByPort (normalizedPort (portParameter p) m) (Some m) st")
  case (Some e)
  then show ?thesis
    using assms start_existing_fst [OF Some, of h f orig has]
      start_existing_servers [OF Some, of h f orig has]
    by (simp add: findRunningServerByPort_def)
next
  case None
  from start_miss [OF None, of h f orig has] show ?thesis
  proof (elim disjE exE conjE)
    assume "fst (startHTFlowServer h p m f orig has st) = None"
    with assms show ?thesis by simp
  next
    fix serverId server
    assume a: "port server = normalizedPort (portParameter p) m" "mode server = m"
      "fst (startHTFlowServer h p m f orig has st) = Some (serverId, server)"
      "runningServers (snd (startHTFlowServer h p m f orig has st))
              = AList.update serverId server (runningServers st)"
    then have "first = (serverId, server)" using assms by simp
    then show ?thesis using a None
      by (simp add: findRunningServerByPort_def find_update_new)
  qed
qed

lemma startAll_count:
  "length (serversOn (normalizedPort (portParameter p) m) m st) \<le> 1 \<Longrightarrow>
   length (serversOn (normalizedPort (portParameter p) m) m (snd (startAll p m calls st))) \<le> 1"
proof (induction calls arbitrary: st)
  case Nil
  then show ?case by simp
next
  case (Cons c calls)
  obtain h f orig has where c: "c = (h, f, orig, has)" by (cases c) auto
  have "length (serversOn (normalizedPort (portParameter p) m) m
                   (snd (startHTFlowServer h p m f orig has st))) \<le> 1"
    using Cons.prems by (rule start_count)
  from Cons.IH [OF this] show ?case
    unfolding c startAll_Cons_snd .
qed

lemma startAll_existing:
  "findRunningServerByPort (normalizedPort (portParameter p) m) (Some m) st = Some first \<Longrightarrow>
   (\<forall>r \<in> set (fst (startAll p m calls st)). r = Some first)
   \<and> runningServers (snd (startAll p m calls st)) = runningServers st"
proof (induction calls arbitrary: st)
  case Nil
  then show ?case by simp
next
  case (Cons c calls)
  obtain h f orig has where c: "c = (h, f, orig, has)" by (cases c) auto
  let ?st1 = "snd (startHTFlowServer h p m f orig has st)"
  have r: "fst (startHTFlowServer h p m f orig has st) = Some first"
    using Cons.prems by (rule start_existing_fst)
  have s: "runningServers ?st1 = runningServers st"
    using Cons.prems by (rule start_existing_servers)
  have "findRunningServerByPort (normalizedPort (portParameter p) m) (Some m) ?st1 = Some first"
    using Cons.prems s by (simp add: findRunningServerByPort_def)
  from Cons.IH [OF this] r s show ?case
    unfolding c startAll_Cons_fst startAll_Cons_snd by simp
qed

text \<open>
  Every operation keeps the bound for every port and mode: a call of
  \<open>startHTFlowServer\<close> with any arguments, \<open>stopServer\<close> and \<open>dispose\<close>.
\<close>

lemma filter_update_other:
  "\<not> Q (k, v) \<Longrightarrow> length (filter Q (AList.update k v al)) \<le> length (filter Q al)"
  by (induction al) (auto split: if_splits)

lemma filter_delete_le:
  "length (filter Q (AList.delete k al)) \<le> length (filter Q al)"
  by (induction al) auto

lemma startHTFlowServer_keeps_unique:
  assumes "length (serversOn q n st) \<le> 1"
  shows "length (serversOn q n (snd (startHTFlowServer h p m f orig has st))) \<le> 1"
proof (cases "findRunningServerByPort (normalizedPort (portParameter p) m) (Some m) st")
  case (Some first)
  then show ?thesis
    using assms start_existing_servers [OF Some, of h f orig has] by (simp add: serversOn_def)
next
  case None
  from start_miss [OF None, of h f orig has] show ?thesis
  proof (elim disjE exE conjE)
    assume "runningServers (snd (startHTFlowServer h p m f orig has st)) = runningServers st"
    then show ?thesis using assms by (simp add: serversOn_def)
  next
    fix serverId server
    assume pm: "port server = normalizedPort (portParameter p) m" "mode server = m"
      and u: "runningServers (snd (startHTFlowServer h p m f orig has st))
              = AList.update serverId server (runningServers st)"
    show ?thesis
    proof (cases "q = normalizedPort (portParameter p) m \<and> n = m")
      case True
      with assms have "length (serversOn (normalizedPort (portParameter p) m) m st) \<le> 1"
        by simp
      from start_count [OF this, of h f orig has] True show ?thesis
        by simp
    next
      case False
      then have "\<not> (\<lambda>(serverId, server). port server = q \<and> mode server = n) (serverId, server)"
        using pm by auto
      then have "length (filter (\<lambda>(serverId, server). port server = q \<and> mode server = n)
                   (AList.update serverId server (runningServers st)))
                 \<le> length (filter (\<lambda>(serverId, server). port server = q \<and> mode server = n)
                   (runningServers st))"
        by (rule filter_update_other)
      then show ?thesis using assms u by (simp add: serversOn_def)
    qed
  qed
qed

lemma stopServer_keeps_unique:
  "length (serversOn q n (snd (stopServer h i p st))) \<le> length (serversOn q n st)"
proof (cases "fst (stopServer h i p st)")
  case True
  show ?thesis
    using stopServer_true(3) [OF True] by (simp add: serversOn_def filter_delete_le)
next
  case False
  show ?thesis
    using stopServer_false(2) [OF False] by (simp add: serversOn_def)
qed

lemma dispose_keeps_unique: "serversOn q n (dispose st) = []"
  by (simp add: serversOn_def dispose_def Let_def emit_def)

lemma first_result:
  "fst (startHTFlowServer exampleHost (JNum (Num 3050)) ''dev'' None Browser True initialProvider)
     = Some (''dev-3050-17'',
          \<lparr>port = 3050, mode = ''dev'', folder = [], startTime = 18,
           terminal = Terminal ''HTFlow Server (dev:3050)'' ''/work'', origin = Browser\<rparr>)"
  by (simp add: startHTFlowServer_def example_defs)

lemma calls_fst:
  "fst (startAll (JNum (Num 3050)) ''dev'' exampleCalls startedProvider)
     = [Some (''dev-3050-17'',
          \<lparr>port = 3050, mode = ''dev'', folder = [], startTime = 18,
           terminal = Terminal ''HTFlow Server (dev:3050)'' ''/work'', origin = Browser\<rparr>),
        Some (''dev-3050-17'',
          \<lparr>port = 3050, mode = ''dev'', folder = [], startTime = 18,
           terminal = Terminal ''HTFlow Server (dev:3050)'' ''/work'', origin = Browser\<rparr>)]"
  by (simp add: startedProvider_eq exampleCalls_def startHTFlowServer_def example_defs split_beta)

text \<open>
  C1: in a sequence of \<open>startHTFlowServer\<close> calls with the same port and mode, a
  Registry that has at most one entry with the normalized port and the mode still has at
  most one after all the calls; and once a call has returned a server, every later call
  returns the same identifier and entry and leaves the Registry as that call left it.
\<close>

theorem startHTFlowServer_no_duplicate:
  "(length (serversOn (normalizedPort (portParameter p) m) m st) \<le> 1 \<longrightarrow>
      length (serversOn (normalizedPort (portParameter p) m) m (snd (startAll p m calls st))) \<le> 1)
   \<and> (fst (startHTFlowServer h p m f orig has st) = Some first \<longrightarrow>
        (\<forall>r \<in> set (fst (startAll p m calls (snd (startHTFlowServer h p m f orig has st)))).
            r = Some first)
        \<and> runningServers (snd (startAll p m calls (snd (startHTFlowServer h p m f orig has st))))
            = runningServers (snd (startHTFlowServer h p m f orig has st)))"
  using startAll_count [of p m st calls]
    startAll_existing [OF start_found_after, of h p m f orig has st first calls]
  by blast

theorem startHTFlowServer_no_duplicate_witness:
  "length (serversOn (normalizedPort (portParameter (JNum (Num 3050))) ''dev'') ''dev''
             initialProvider) \<le> 1
   \<and> length (serversOn (normalizedPort (portParameter (JNum (Num 3050))) ''dev'') ''dev''
               (snd (startAll (JNum (Num 3050)) ''dev''
                       ((exampleHost, None, Browser, True) # exampleCalls) initialProvider))) \<le> 1
   \<and> fst (startHTFlowServer exampleHost (JNum (Num 3050)) ''dev'' None Browser True initialProvider)
       = Some (''dev-3050-17'',
          \<lparr>port = 3050, mode = ''dev'', folder = [], startTime = 18,
           terminal = Terminal ''HTFlow Server (dev:3050)'' ''/work'', origin = Browser\<rparr>)
   \<and> fst (startAll (JNum (Num 3050)) ''dev'' exampleCalls startedProvider)
       = [Some (''dev-3050-17'',
          \<lparr>port = 3050, mode = ''dev'', folder = [], startTime = 18,
           terminal = Terminal ''HTFlow Server (dev:3050)'' ''/work'', origin = Browser\<rparr>),
        Some (''dev-3050-17'',
          \<lparr>port = 3050, mode = ''dev'', folder = [], startTime = 18,
           terminal = Terminal ''HTFlow Server (dev:3050)'' ''/work'', origin = Browser\<rparr>)]
   \<and> runningServers (snd (startAll (JNum (Num 3050)) ''dev'' exampleCalls startedProvider))
       = runningServers startedProvider"
proof -
  have a: "length (serversOn (normalizedPort (portParameter (JNum (Num 3050))) ''dev'') ''dev''
             initialProvider) \<le> 1"
    by (simp add: serversOn_def initialProvider_def)
  note b = first_result
  note t1 = startHTFlowServer_no_duplicate
    [of "JNum (Num 3050)" "''dev''" initialProvider
        "(exampleHost, None, Browser, True) # exampleCalls"]
  note t2 = startHTFlowServer_no_duplicate
    [of "JNum (Num 3050)" "''dev''" initialProvider exampleCalls exampleHost None Browser True,
     folded startedProvider_def]
  show ?thesis
    using a b t1 t2 calls_fst by blast
qed

section \<open>The invocation sent to the terminal\<close>


lemma ensure_events [simp]: "events (ensureBrowserPortMapping p st) = events st"
  by (simp add: ensureBrowserPortMapping_def split: option.splits)





section \<open>The live-preview target\<close>

text \<open>Starting and stopping keep the target registered.\<close>

lemma ensure_target [simp]:
  "browserLiveServerId (ensureBrowserPortMapping p st) = browserLiveServerId st"
  by (simp add: ensureBrowserPortMapping_def split: option.splits)

lemma emit_target [simp]: "browserLiveServerId (emit es st) = browserLiveServerId st"
  by (simp add: emit_def)

lemma map_of_find:
  "find Q al = Some (k, v) \<Longrightarrow> map_of al k \<noteq> None"
  by (induction al) (auto split: if_splits)

lemma start_target:
  "browserLiveServerId (snd (startHTFlowServer h p m f orig has st))
     = (case fst (startHTFlowServer h p m f orig has st) of
          Some (serverId, server) \<Rightarrow>
            if orig = Browser then Some serverId else browserLiveServerId st
        | None \<Rightarrow> browserLiveServerId st)"
proof (cases "findRunningServerByPort (normalizedPort (portParameter p) m) (Some m) st")
  case (Some first)
  obtain i s where fs: "first = (i, s)" by (cases first)
  show ?thesis
    using Some unfolding fs startHTFlowServer_def Let_def by simp
next
  case None
  show ?thesis
  proof (cases "workspaceFolder h")
    case wsNone: None
    then show ?thesis using None unfolding startHTFlowServer_def Let_def by simp
  next
    case (Some ws)
    show ?thesis
    proof (cases "createTerminalError h")
      case ceNone: None
      then show ?thesis using None Some unfolding startHTFlowServer_def Let_def by simp
    next
      case (Some e)
      then show ?thesis using None \<open>workspaceFolder h = Some ws\<close>
        unfolding startHTFlowServer_def Let_def by simp
    qed
  qed
qed

lemma start_result_registered:
  assumes "fst (startHTFlowServer h p m f orig has st) = Some (serverId, server)"
  shows "map_of (runningServers (snd (startHTFlowServer h p m f orig has st))) serverId \<noteq> None"
proof -
  have "findRunningServerByPort (normalizedPort (portParameter p) m) (Some m)
          (snd (startHTFlowServer h p m f orig has st)) = Some (serverId, server)"
    using assms by (rule start_found_after)
  then show ?thesis
    unfolding findRunningServerByPort_def by (rule map_of_find)
qed

lemma start_servers_grow:
  "map_of (runningServers st) k \<noteq> None \<Longrightarrow>
   map_of (runningServers (snd (startHTFlowServer h p m f orig has st))) k \<noteq> None"
proof (cases "findRunningServerByPort (normalizedPort (portParameter p) m) (Some m) st")
  case (Some first)
  assume "map_of (runningServers st) k \<noteq> None"
  then show ?thesis using start_existing_servers [OF Some, of h f orig has] by simp
next
  case None
  assume k: "map_of (runningServers st) k \<noteq> None"
  from start_miss [OF None, of h f orig has] show ?thesis
    using k by (auto simp: update_conv')
qed

lemma targetRegistered_start:
  assumes "targetRegistered st"
  shows "targetRegistered (snd (startHTFlowServer h p m f orig has st))"
proof (cases "fst (startHTFlowServer h p m f orig has st)")
  case None
  then have "browserLiveServerId (snd (startHTFlowServer h p m f orig has st))
               = browserLiveServerId st"
    by (simp add: start_target)
  then show ?thesis
    using assms start_servers_grow [of st _ h p m f orig has]
    by (auto simp: targetRegistered_def split: option.splits)
next
  case (Some r)
  obtain i s where r: "r = (i, s)" by (cases r)
  have t: "browserLiveServerId (snd (startHTFlowServer h p m f orig has st))
               = (if orig = Browser then Some i else browserLiveServerId st)"
    using Some by (simp add: start_target r)
  have reg: "map_of (runningServers (snd (startHTFlowServer h p m f orig has st))) i \<noteq> None"
    using Some unfolding r by (rule start_result_registered)
  show ?thesis
    using assms t reg start_servers_grow [of st _ h p m f orig has]
    by (auto simp: targetRegistered_def split: option.splits if_splits)
qed

lemma stopCleanup_target:
  "browserLiveServerId (snd (stopCleanup i rp b st))
     = (if browserLiveServerId st = Some i then None else browserLiveServerId st)"
  by (simp add: stopCleanup_def Let_def emit_def)

lemma stopServer_target:
  "fst (stopServer h i p st) \<Longrightarrow>
   browserLiveServerId (snd (stopServer h i p st))
     = (if browserLiveServerId st = Some i then None else browserLiveServerId st)"
  by (auto simp: stopServer_def Let_def stopCleanup_target emit_def
           split: option.splits if_splits)

lemma targetRegistered_stop:
  assumes "targetRegistered st"
  shows "targetRegistered (snd (stopServer h i p st))"
proof (cases "fst (stopServer h i p st)")
  case True
  show ?thesis
    using assms stopServer_true(3) [OF True] stopServer_target [OF True]
    by (auto simp: targetRegistered_def delete_conv' split: option.splits if_splits)
next
  case False
  show ?thesis
    using assms stopServer_false(2,4) [OF False]
    by (simp add: targetRegistered_def split: option.splits)
qed

text \<open>
  C3: after a server was started from the browser panel, the target is its identifier and
  that is a key of the Registry. \<open>dispose()\<close> clears the Registry and leaves the target
  as it is: afterwards the target is non-empty and not a key of the Registry.
\<close>

theorem dispose_leaves_live_target:
  "browserLiveServerId startedProvider = Some ''dev-3050-17''
   \<and> map_of (runningServers startedProvider) ''dev-3050-17''
       = Some \<lparr>port = 3050, mode = ''dev'', folder = [], startTime = 18,
           terminal = Terminal ''HTFlow Server (dev:3050)'' ''/work'', origin = Browser\<rparr>
   \<and> browserLiveServerId (dispose startedProvider) = Some ''dev-3050-17''
   \<and> map_of (runningServers (dispose startedProvider)) ''dev-3050-17'' = None"
  by (simp add: startedProvider_eq dispose_def emit_def Let_def)

section \<open>Captured output\<close>

lemma delivered_append: "delivered (xs @ ys) = delivered xs @ delivered ys"
  by (induction xs rule: delivered.induct) simp_all

lemma command_ok:
  assumes "workspaceFolder h = Some ws" and "createTerminalError h = None"
      and "execOutcome h = ExecOk out err"
  shows "delivered (events (executeHTFlowCommandForPanel h cmd ok f st))
           = delivered (events st)
             @ postedTo st (CommandResults
                 \<lparr>command = panelCommandText cmd f,
                  outputText = (if out \<noteq> [] then out else if err \<noteq> [] then err
                                else ''Command completed successfully (no output)''),
                  error = False, success = True, exitCode = JNum (Num 0),
                  duration = int (dateNowAfter h) - int (dateNow h)\<rparr>)"
  using assms unfolding executeHTFlowCommandForPanel_def Let_def
  by (simp add: emit_def delivered_append postedTo_def strOr_def)

lemma command_error:
  assumes "workspaceFolder h = Some ws" and "createTerminalError h = None"
      and "execOutcome h = ExecError out err msg code"
  shows "delivered (events (executeHTFlowCommandForPanel h cmd ok f st))
           = delivered (events st)
             @ postedTo st (CommandResults
                 \<lparr>command = panelCommandText cmd f,
                  outputText = (if out \<noteq> [] then out else if err \<noteq> [] then err
                                else if msg \<noteq> [] then msg else ''Command failed with no output''),
                  error = True, success = False,
                  exitCode = (if truthy code then code else JNum (Num 1)),
                  duration = int (dateNowAfter h) - int (dateNow h)\<rparr>)"
  using assms unfolding executeHTFlowCommandForPanel_def Let_def
  by (simp add: emit_def delivered_append postedTo_def strOr_def jsOr_def)

lemma audit_ok:
  assumes "workspaceFolder h = Some ws" and "createTerminalError h = None"
      and "execOutcome h = ExecOk out err"
  shows "delivered (events (executeHTFlowAuditForPanel h f ok st))
           = delivered (events st)
             @ postedTo st (AuditResults
                 (if out \<noteq> [] then out else if err \<noteq> [] then err else ''No output received''))"
  using assms unfolding executeHTFlowAuditForPanel_def Let_def
  by (simp add: emit_def delivered_append postedTo_def strOr_def)

lemma audit_error:
  assumes "workspaceFolder h = Some ws" and "createTerminalError h = None"
      and "execOutcome h = ExecError out err msg code"
  shows "delivered (events (executeHTFlowAuditForPanel h f ok st))
           = delivered (events st)
             @ (if out = [] \<and> err = [] \<and> msg = [] then []
                else postedTo st (AuditResults
                       (if out \<noteq> [] then out else if err \<noteq> [] then err else msg)))"
  using assms unfolding executeHTFlowAuditForPanel_def Let_def
  by (simp add: emit_def delivered_append postedTo_def strOr_def)

text \<open>
  C8, as the spec states it: every captured execution that fails delivers a result with an
  exit code and \<open>success = false\<close>. The audit variant delivers the output text only.
  For a failing audit with exit code 2 the message posted is \<open>auditResults\<close> with the
  stderr text; it carries neither an exit code nor a success flag.
\<close>

theorem audit_failure_counterexample:
  "delivered (events (executeHTFlowAuditForPanel failingExec None ''Audit completed successfully!''
                        (initialProvider\<lparr>view := True\<rparr>)))
     = [AuditResults ''boom'']
   \<and> map resultExitCode
        (delivered (events (executeHTFlowAuditForPanel failingExec None
                              ''Audit completed successfully!'' (initialProvider\<lparr>view := True\<rparr>))))
     = [None]
   \<and> map resultSuccess
        (delivered (events (executeHTFlowAuditForPanel failingExec None
                              ''Audit completed successfully!'' (initialProvider\<lparr>view := True\<rparr>))))
     = [None]"
  by (simp add: executeHTFlowAuditForPanel_def failingExec_def initialProvider_def emit_def
                strOr_def Let_def)

text \<open>
  C8, amended: with a workspace open, what is posted to the sidebar view and the detached
  panel is as follows. On success the output is stdout if non-empty, else stderr if
  non-empty, else a sentinel text (\<open>Command completed successfully (no output)\<close>, for
  an audit \<open>No output received\<close>). On failure it is stdout, then stderr, then the
  error message, in that priority. \<open>executeHTFlowCommandForPanel\<close> then falls back to
  \<open>Command failed with no output\<close> and posts \<open>success = false\<close> with the exit
  code as reported, or 1 when that is falsy; \<open>executeHTFlowAuditForPanel\<close> posts the
  output text only, and nothing when all three are empty. Neither throws.
\<close>

theorem captured_output_chain:
  assumes "workspaceFolder h = Some ws" and "createTerminalError h = None"
  shows "(execOutcome h = ExecOk out err \<longrightarrow>
            delivered (events (executeHTFlowCommandForPanel h cmd ok f st))
              = delivered (events st)
                @ postedTo st (CommandResults
                    \<lparr>command = panelCommandText cmd f,
                     outputText = (if out \<noteq> [] then out else if err \<noteq> [] then err
                                   else ''Command completed successfully (no output)''),
                     error = False, success = True, exitCode = JNum (Num 0),
                     duration = int (dateNowAfter h) - int (dateNow h)\<rparr>)
            \<and> delivered (events (executeHTFlowAuditForPanel h f ok st))
              = delivered (events st)
                @ postedTo st (AuditResults
                    (if out \<noteq> [] then out else if err \<noteq> [] then err else ''No output received'')))
       \<and> (execOutcome h = ExecError out err msg code \<longrightarrow>
            delivered (events (executeHTFlowCommandForPanel h cmd ok f st))
              = delivered (events st)
                @ postedTo st (CommandResults
                    \<lparr>command = panelCommandText cmd f,
                     outputText = (if out \<noteq> [] then out else if err \<noteq> [] then err
                                   else if msg \<noteq> [] then msg else ''Command failed with no output''),
                     error = True, success = False,
                     exitCode = (if truthy code then code else JNum (Num 1)),
                     duration = int (dateNowAfter h) - int (dateNow h)\<rparr>)
            \<and> delivered (events (executeHTFlowAuditForPanel h f ok st))
              = delivered (events st)
                @ (if out = [] \<and> err = [] \<and> msg = [] then []
                   else postedTo st (AuditResults
                          (if out \<noteq> [] then out else if err \<noteq> [] then err else msg))))"
  by (intro conjI impI)
     (erule command_ok [OF assms] audit_ok [OF assms] command_error [OF assms]
            audit_error [OF assms])+

theorem captured_output_chain_witness:
  "workspaceFolder failingExec = Some ''/work''
   \<and> createTerminalError failingExec = None
   \<and> execOutcome failingExec
       = ExecError [] ''boom'' ''Command failed: npx htflow audit'' (JNum (Num 2))
   \<and> delivered (events (executeHTFlowCommandForPanel failingExec ''build''
                           ''Done'' None (initialProvider\<lparr>view := True\<rparr>)))
       = [CommandResults
            \<lparr>command = ''npx htflow build'', outputText = ''boom'', error = True, success = False,
             exitCode = JNum (Num 2), duration = 23\<rparr>]
   \<and> delivered (events (executeHTFlowAuditForPanel failingExec None
                           ''Done'' (initialProvider\<lparr>view := True\<rparr>)))
       = [AuditResults ''boom'']"
proof -
  have a: "workspaceFolder failingExec = Some ''/work''"
    by (simp add: failingExec_def)
  have b: "createTerminalError failingExec = None"
    by (simp add: failingExec_def)
  have c: "execOutcome failingExec
             = ExecError [] ''boom'' ''Command failed: npx htflow audit'' (JNum (Num 2))"
    by (simp add: failingExec_def)
  have d: "dateNowAfter failingExec = 40" "dateNow failingExec = 17"
    by (simp_all add: failingExec_def)
  show ?thesis
    using a b c
      captured_output_chain [OF a b, where out = "[]" and err = "''boom''"
        and msg = "''Command failed: npx htflow audit''" and code = "JNum (Num 2)"
        and cmd = "''build''" and ok = "''Done''" and f = None
        and st = "initialProvider\<lparr>view := True\<rparr>"]
    by (simp add: d postedTo_def panelCommandText_def initialProvider_def)
qed

section \<open>The two message handlers\<close>

lemma handlers_equal: "sidebarHandler P ws msg = panelHandler P ws msg"
  unfolding sidebarHandler_def panelHandler_def by (rule refl)

lemma sidebar_unknown:
  assumes "msg ''command'' \<notin> set (map JStr knownCommands)"
  shows "sidebarHandler P ws msg = ShowInformation (''HTFlow: '' @ toText P (msg ''command''))"
  using assms unfolding sidebarHandler_def knownCommands_def by simp

lemma panel_unknown:
  assumes "msg ''command'' \<notin> set (map JStr knownCommands)"
  shows "panelHandler P ws msg = ShowInformation (''HTFlow: '' @ toText P (msg ''command''))"
  using assms unfolding panelHandler_def knownCommands_def by simp

text \<open>
  C9: for every message the handler of the sidebar view and the handler of the detached
  panel call the same operation with the same arguments, and for a command name that has
  no case both show the information message \<open>HTFlow: <command>\<close>.
\<close>

theorem handlers_agree:
  "sidebarHandler P ws msg = panelHandler P ws msg
   \<and> (msg ''command'' \<notin> set (map JStr knownCommands) \<longrightarrow>
        sidebarHandler P ws msg = ShowInformation (''HTFlow: '' @ toText P (msg ''command''))
        \<and> panelHandler P ws msg = ShowInformation (''HTFlow: '' @ toText P (msg ''command'')))"
  using handlers_equal [of P ws msg] sidebar_unknown [of msg P ws] panel_unknown [of msg P ws]
  by blast

theorem handlers_agree_witness:
  "(\<lambda>k. if k = ''command'' then JStr ''htflow.deploy'' else JUndefined) ''command''
     \<notin> set (map JStr knownCommands)
   \<and> sidebarHandler examplePrims (Some ''/work'')
        (\<lambda>k. if k = ''command'' then JStr ''htflow.deploy'' else JUndefined)
       = ShowInformation ''HTFlow: htflow.deploy''
   \<and> panelHandler examplePrims (Some ''/work'')
        (\<lambda>k. if k = ''command'' then JStr ''htflow.deploy'' else JUndefined)
       = ShowInformation ''HTFlow: htflow.deploy''"
proof -
  have a: "(\<lambda>k. if k = ''command'' then JStr ''htflow.deploy'' else JUndefined) ''command''
     \<notin> set (map JStr knownCommands)"
    by (simp add: knownCommands_def)
  show ?thesis
    using a handlers_agree [of examplePrims "Some ''/work''"
                "\<lambda>k. if k = ''command'' then JStr ''htflow.deploy'' else JUndefined"]
    by simp
qed

lemma sidebar_startLiveServer:
  assumes "msg ''command'' = JStr ''startLiveServer''"
  shows "sidebarHandler P ws msg =
           StartHTFlowServer (if truthy (msg ''port'') then msg ''port'' else JNum (Num 3000))
             ''dev'' JUndefined Browser (JBool False)"
  using assms unfolding sidebarHandler_def by (simp add: jsOr_def)

lemma panel_startLiveServer:
  assumes "msg ''command'' = JStr ''startLiveServer''"
  shows "panelHandler P ws msg =
           StartHTFlowServer (if truthy (msg ''port'') then msg ''port'' else JNum (Num 3000))
             ''dev'' JUndefined Browser (JBool False)"
  using assms unfolding panelHandler_def by (simp add: jsOr_def)

lemma browser_startLiveServer_mode:
  "\<exists>requestedPort.
     browserStartLiveServer P msg =
       StartHTFlowServer (JNum (Num (of_int requestedPort)))
         (case msg ''mode'' of
            JStr s \<Rightarrow> if trim s \<noteq> [] then trim s else ''dev''
          | _ \<Rightarrow> ''dev'')
         (msg ''folder'') Browser (JBool True)
     \<and> 1 \<le> requestedPort \<and> requestedPort \<le> 65535
     \<and> requestedPort = (case toNumber P (msg ''port'') of
                          Num r \<Rightarrow> max 1 (min 65535 \<lfloor>r\<rfloor>) | _ \<Rightarrow> 3000)"
  unfolding browserStartLiveServer_def Let_def
  by (auto simp: trim_def split: jsval.splits jsnum.splits)

text \<open>
  C10: on a \<open>startLiveServer\<close> message the sidebar view and the detached panel call
  \<open>startHTFlowServer\<close> with the message's port, or 3000 when it is absent (falsy),
  mode \<open>dev\<close>, no folder, origin \<open>browser\<close> and the port flag false, whatever the
  message's \<open>mode\<close> and \<open>folder\<close> are. The browser panel's handler passes the
  message's trimmed \<open>mode\<close> (\<open>dev\<close> when it is not a non-blank string), its
  \<open>folder\<close>, a port clamped into 1..65535 (3000 when not finite), and the port flag
  true.
\<close>

theorem startLiveServer_handlers:
  assumes "msg ''command'' = JStr ''startLiveServer''"
  shows "sidebarHandler P ws msg =
           StartHTFlowServer (if truthy (msg ''port'') then msg ''port'' else JNum (Num 3000))
             ''dev'' JUndefined Browser (JBool False)
       \<and> panelHandler P ws msg =
           StartHTFlowServer (if truthy (msg ''port'') then msg ''port'' else JNum (Num 3000))
             ''dev'' JUndefined Browser (JBool False)
       \<and> sidebarHandler P ws (msg(''mode'' := v, ''folder'' := w)) = sidebarHandler P ws msg
       \<and> panelHandler P ws (msg(''mode'' := v, ''folder'' := w)) = panelHandler P ws msg
       \<and> (\<exists>requestedPort.
             browserStartLiveServer P msg =
               StartHTFlowServer (JNum (Num (of_int requestedPort)))
                 (case msg ''mode'' of
                    JStr s \<Rightarrow> if trim s \<noteq> [] then trim s else ''dev''
                  | _ \<Rightarrow> ''dev'')
                 (msg ''folder'') Browser (JBool True)
             \<and> 1 \<le> requestedPort \<and> requestedPort \<le> 65535
             \<and> requestedPort = (case toNumber P (msg ''port'') of
                                  Num r \<Rightarrow> max 1 (min 65535 \<lfloor>r\<rfloor>) | _ \<Rightarrow> 3000))"
proof -
  have c: "(msg(''mode'' := v, ''folder'' := w)) ''command'' = JStr ''startLiveServer''"
    using assms by simp
  have p: "(msg(''mode'' := v, ''folder'' := w)) ''port'' = msg ''port''"
    by simp
  show ?thesis
    using sidebar_startLiveServer [where msg = msg and P = P and ws = ws, OF assms]
      panel_startLiveServer [where msg = msg and P = P and ws = ws, OF assms]
      sidebar_startLiveServer
        [where msg = "msg(''mode'' := v, ''folder'' := w)" and P = P and ws = ws, OF c]
      panel_startLiveServer
        [where msg = "msg(''mode'' := v, ''folder'' := w)" and P = P and ws = ws, OF c]
      browser_startLiveServer_mode [of P msg]
    unfolding p by simp
qed

theorem startLiveServer_handlers_witness:
  "exampleMessage ''command'' = JStr ''startLiveServer''
   \<and> sidebarHandler examplePrims None exampleMessage
       = StartHTFlowServer (JNum (Num 3000)) ''dev'' JUndefined Browser (JBool False)
   \<and> panelHandler examplePrims None exampleMessage
       = StartHTFlowServer (JNum (Num 3000)) ''dev'' JUndefined Browser (JBool False)
   \<and> browserStartLiveServer examplePrims exampleMessage
       = StartHTFlowServer (JNum (Num 3000)) ''start'' (JStr ''site'') Browser (JBool True)"
proof -
  have a: "exampleMessage ''command'' = JStr ''startLiveServer''"
    by (simp add: exampleMessage_def)
  have b: "exampleMessage ''port'' = JUndefined" "exampleMessage ''mode'' = JStr '' start ''"
    "exampleMessage ''folder'' = JStr ''site''"
    by (simp_all add: exampleMessage_def)
  have t: "trim '' start '' = ''start''"
    by (simp add: trim_def isWhiteSpace_def)
  show ?thesis
    using a startLiveServer_handlers
      [where msg = exampleMessage and P = examplePrims and ws = None and v = JUndefined
         and w = JUndefined, OF a]
    by (auto simp: b t)
qed

end
